theory Spec2Isabelle
  imports Complex_Main
begin

section \<open>Lead scoring\<close>

text \<open>
  The scoring function of \<^verbatim>\<open>core/data_manager.py\<close>, as the repository prints it
  (SYSTEM_STATUS.md and README_CRM_FEATURES.md carry the same body):
  \<^verbatim>\<open>
  def _calculate_lead_score(self, message_count, avg_sentiment,
                            positive_messages, negative_messages):
      message_score = min(message_count / 100, 0.4)  # 40% weight
      sentiment_score = max(0, avg_sentiment) * 0.3  # 30% weight
      engagement_score = (positive_messages / total_messages) * 0.3  # 30% weight
      return min(message_score + sentiment_score + engagement_score, 1.0)
  \<close>
  Counts are Python integers (\<open>int\<close>); \<open>/\<close> is true division and yields a float.
  Floats are idealised as \<open>real\<close>: rounding is not modelled. A zero divisor raises
  \<open>ZeroDivisionError\<close>, which the model returns as a value.
\<close>

datatype py_error = ZeroDivisionError

definition message_score :: "int \<Rightarrow> real" where
  "message_score message_count = min (real_of_int message_count / 100) 0.4"

definition sentiment_score :: "real \<Rightarrow> real" where
  "sentiment_score avg_sentiment = max 0 avg_sentiment * 0.3"

definition engagement_score :: "int \<Rightarrow> int \<Rightarrow> py_error + real" where
  "engagement_score positive_messages total_messages =
     (if total_messages = 0 then Inl ZeroDivisionError
      else Inr ((real_of_int positive_messages / real_of_int total_messages) * 0.3))"

text \<open>
  The printed body reads \<open>total_messages\<close> without binding it, so the model takes it as
  its first argument; the other four are the function's own parameters, in its order.
\<close>

definition calculate_lead_score :: "int \<Rightarrow> int \<Rightarrow> real \<Rightarrow> int \<Rightarrow> int \<Rightarrow> py_error + real" where
  "calculate_lead_score total_messages message_count avg_sentiment
       positive_messages negative_messages =
     (case engagement_score positive_messages total_messages of
        Inl err \<Rightarrow> Inl err
      | Inr e_score \<Rightarrow>
          Inr (min (message_score message_count + sentiment_score avg_sentiment + e_score) 1))"

text \<open>
  Modelled from the spec: the binding of \<open>total_messages\<close>, which the printed body
  leaves out. The spec's engagement ratio divides by
  \<open>total_sentiment_classified_messages = positive_message_count + negative_message_count\<close>.
\<close>

definition total_sentiment_classified_messages :: "int \<Rightarrow> int \<Rightarrow> int" where
  "total_sentiment_classified_messages positive_messages negative_messages =
     positive_messages + negative_messages"

subsection \<open>The formulas of the specification, for comparison\<close>

text \<open>
  These three follow the words of the specification, not the code: the engagement
  sub-score \<open>min(message_count / 100, 1.0)\<close>, \<open>clamp\<close>, and the total
  \<open>clamp(0.4 * engagement + 0.3 * sentiment + 0.3 * ratio, 0.0, 1.0)\<close> with a ratio of 0
  when nothing is classified.
\<close>

definition spec_engagement_subscore :: "int \<Rightarrow> real" where
  "spec_engagement_subscore message_count = min (real_of_int message_count / 100) 1"

definition clamp :: "real \<Rightarrow> real \<Rightarrow> real \<Rightarrow> real" where
  "clamp x lo hi = max lo (min x hi)"

definition spec_score :: "int \<Rightarrow> real \<Rightarrow> int \<Rightarrow> int \<Rightarrow> real" where
  "spec_score message_count avg_sentiment positive_messages negative_messages =
     clamp (0.4 * spec_engagement_subscore message_count
            + 0.3 * max 0 avg_sentiment
            + 0.3 * (if positive_messages + negative_messages = 0 then 0
                     else real_of_int positive_messages
                          / real_of_int (positive_messages + negative_messages)))
           0 1"

section \<open>Contact categorization\<close>

datatype category =
  High_Value_Lead | Active_Contact | Regular_Contact | Positive_Contact | Contact

fun category_label :: "category \<Rightarrow> string" where
  "category_label High_Value_Lead = ''High-Value Lead''"
| "category_label Active_Contact = ''Active Contact''"
| "category_label Regular_Contact = ''Regular Contact''"
| "category_label Positive_Contact = ''Positive Contact''"
| "category_label Contact = ''Contact''"

text \<open>
  Modelled from the spec: the body of \<open>_categorize_contact(message_count, avg_sentiment)\<close>
  of \<^verbatim>\<open>core/data_manager.py\<close>, whose shipped body is not among the repository's
  sources. The README lists the five categories and prints, under "Add new categories",
  only an example of a custom rule (a "VIP Contact" for more than 100 messages and
  sentiment above 0.5), which is none of the five. The rules are those of the
  specification's table, top to bottom, first match wins. The fourth rule's cutoff is
  "a configurable positive threshold" there, so it is the first argument here.
\<close>

definition categorize_contact :: "real \<Rightarrow> int \<Rightarrow> real \<Rightarrow> category" where
  "categorize_contact positive_threshold message_count avg_sentiment =
     (if message_count > 50 \<and> avg_sentiment > 0 then High_Value_Lead
      else if message_count > 20 \<and> avg_sentiment > 0 then Active_Contact
      else if message_count > 10 then Regular_Contact
      else if avg_sentiment > positive_threshold then Positive_Contact
      else Contact)"

text \<open>The tiers in the order of the table, the first rule highest.\<close>

fun tier :: "category \<Rightarrow> nat" where
  "tier Contact = 0"
| "tier Positive_Contact = 1"
| "tier Regular_Contact = 2"
| "tier Active_Contact = 3"
| "tier High_Value_Lead = 4"

section \<open>The scoring operation of the specification\<close>

record LeadScore =
  score :: real
  category :: category

text \<open>
  Modelled from the spec: \<open>compute_score(aggregate) -> LeadScore\<close>, for the two things
  the printed body of \<open>_calculate_lead_score\<close> leaves out, the binding of
  \<open>total_messages\<close> and what happens when it is 0. The specification's words are:
  "\<open>total_sentiment_classified_messages = positive_message_count +
  negative_message_count\<close>; if that denominator is 0, this sub-score is 0". With a
  denominator of 0 the ratio sub-score is therefore 0 and the printed return line gives
  the score; otherwise the printed body runs with that denominator. The category is that
  of \<open>categorize_contact\<close>. The aggregate's fields are passed one by one, in the order
  of the printed function's parameters.
\<close>

definition compute_score :: "real \<Rightarrow> int \<Rightarrow> real \<Rightarrow> int \<Rightarrow> int \<Rightarrow> py_error + LeadScore" where
  "compute_score positive_threshold message_count average_sentiment
       positive_message_count negative_message_count =
     (let total_messages =
            total_sentiment_classified_messages positive_message_count negative_message_count;
          result =
            (if total_messages = 0
             then Inr (min (message_score message_count + sentiment_score average_sentiment
                            + 0 * 0.3) 1)
             else calculate_lead_score total_messages message_count average_sentiment
                    positive_message_count negative_message_count)
      in case result of
           Inl err \<Rightarrow> Inl err
         | Inr v \<Rightarrow>
             Inr \<lparr>score = v,
                  category = categorize_contact positive_threshold message_count
                               average_sentiment\<rparr>)"

section \<open>The hot-leads query\<close>

text \<open>
  \<^verbatim>\<open>
  if "hot leads" in query.lower():
      contacts = await self.db_manager.search_contacts(
          filters={'lead_score__gte': 70}
      )
      return self._format_hot_leads_response(contacts)
  \<close>
  A contact is a dictionary read with \<open>.get\<close>; a missing key is \<open>None\<close> here.
\<close>

record contact =
  name :: "string option"
  organization :: "string option"
  lead_score :: "real option"
  last_interaction :: "string option"

datatype contact_filter = Lead_score_gte real

text \<open>
  Modelled from the spec: \<open>search_contacts\<close> of \<^verbatim>\<open>core/local_database_manager.py\<close>,
  which is called here and defined nowhere in the repository's printed sources. The
  filter key \<open>lead_score__gte\<close> is read as the claim reads it: it selects the contacts
  whose stored \<open>lead_score\<close> is at least the bound. The database is the contact list
  passed in.
\<close>

fun matches_filter :: "contact_filter \<Rightarrow> contact \<Rightarrow> bool" where
  "matches_filter (Lead_score_gte bound) c =
     (case lead_score c of None \<Rightarrow> False | Some v \<Rightarrow> bound \<le> v)"

definition search_contacts :: "contact_filter list \<Rightarrow> contact list \<Rightarrow> contact list" where
  "search_contacts filters db = filter (\<lambda>c. list_all (\<lambda>f. matches_filter f c) filters) db"

text \<open>
  \<open>_format_hot_leads_response\<close>: the answer for no contacts is a fixed sentence;
  otherwise the first five contacts are rendered, and \<open>render\<close> stands for that text
  (it prints floats, which the model does not).
\<close>

definition format_hot_leads_response :: "(contact list \<Rightarrow> string) \<Rightarrow> contact list \<Rightarrow> string" where
  "format_hot_leads_response render contacts =
     (if contacts = [] then ''No hot leads found at this time.''
      else render (take 5 contacts))"

definition hot_leads :: "(contact list \<Rightarrow> string) \<Rightarrow> contact list \<Rightarrow> string" where
  "hot_leads render db =
     format_hot_leads_response render (search_contacts [Lead_score_gte 70] db)"

section \<open>Basic facts\<close>

lemma engagement_score_zero_divisor:
  "engagement_score positive_messages 0 = Inl ZeroDivisionError"
  by (simp add: engagement_score_def)

lemma calculate_lead_score_returns:
  "total_messages \<noteq> 0 \<Longrightarrow>
   calculate_lead_score total_messages message_count avg_sentiment
       positive_messages negative_messages =
     Inr (min (message_score message_count + sentiment_score avg_sentiment
               + real_of_int positive_messages / real_of_int total_messages * 0.3) 1)"
  by (simp add: calculate_lead_score_def engagement_score_def)

lemma calculate_lead_score_raises:
  "calculate_lead_score 0 message_count avg_sentiment positive_messages negative_messages =
     Inl ZeroDivisionError"
  by (simp add: calculate_lead_score_def engagement_score_def)

lemma message_score_nonneg: "0 \<le> message_count \<Longrightarrow> 0 \<le> message_score message_count"
  by (simp add: message_score_def)

lemma sentiment_score_nonneg: "0 \<le> sentiment_score avg_sentiment"
  by (simp add: sentiment_score_def)

section \<open>Claims about the score\<close>

text \<open>
  C1, as stated, fails on the code. The claim has the message count contribute
  \<open>0.4 * min(message_count / 100, 1.0)\<close>; the code adds \<open>min(message_count / 100, 0.4)\<close>.
  At 20 messages the code adds 0.2 and the claimed formula 0.08.
\<close>

theorem C1_counterexample_message_score:
  "message_score 20 \<noteq> 0.4 * spec_engagement_subscore 20"
  by (simp add: message_score_def spec_engagement_subscore_def)

text \<open>
  C1, amended: the message count contributes \<open>min(message_count / 100, 0.4)\<close> to the
  total, which is \<open>0.4 * min(message_count / 40, 1.0)\<close>: a sub-score weighted 0.4 that
  saturates at 40 messages. From 40 messages on the contribution is exactly 0.4, and from
  100 messages on the claimed sub-score \<open>min(message_count / 100, 1.0)\<close> is exactly 1.0
  and the claimed contribution agrees with the code's.
\<close>

theorem message_score_capped:
  "message_score message_count = 0.4 * min (real_of_int message_count / 40) 1
   \<and> (40 \<le> message_count \<longrightarrow> message_score message_count = 0.4)
   \<and> (100 \<le> message_count \<longrightarrow>
        spec_engagement_subscore message_count = 1
        \<and> message_score message_count = 0.4 * spec_engagement_subscore message_count)
   \<and> (total_messages \<noteq> 0 \<longrightarrow>
        calculate_lead_score total_messages message_count avg_sentiment
            positive_messages negative_messages =
          Inr (min (min (real_of_int message_count / 100) 0.4
                    + sentiment_score avg_sentiment
                    + real_of_int positive_messages / real_of_int total_messages * 0.3) 1))"
proof -
  have a: "message_score message_count = 0.4 * min (real_of_int message_count / 40) 1"
    by (simp add: message_score_def min_def)
  have b: "40 \<le> message_count \<Longrightarrow> message_score message_count = 0.4"
    by (simp add: message_score_def min_def)
  have c: "100 \<le> message_count \<Longrightarrow> spec_engagement_subscore message_count = 1"
    by (simp add: spec_engagement_subscore_def min_def)
  have d: "total_messages \<noteq> 0 \<Longrightarrow>
        calculate_lead_score total_messages message_count avg_sentiment
            positive_messages negative_messages =
          Inr (min (min (real_of_int message_count / 100) 0.4
                    + sentiment_score avg_sentiment
                    + real_of_int positive_messages / real_of_int total_messages * 0.3) 1)"
    by (simp add: calculate_lead_score_returns message_score_def)
  from a b c d show ?thesis by simp
qed

text \<open>The amended C1 at 100 messages, 40 positive and 5 negative, sentiment 0.6.\<close>

theorem message_score_capped_witness:
  "(40::int) \<le> 100 \<and> (100::int) \<le> 100 \<and> (45::int) \<noteq> 0
   \<and> message_score 100 = 0.4 * min (real_of_int 100 / 40) 1
   \<and> message_score 100 = 0.4
   \<and> spec_engagement_subscore 100 = 1
   \<and> calculate_lead_score 45 100 0.6 40 5 =
        Inr (min (min (real_of_int 100 / 100) 0.4 + sentiment_score 0.6
                  + real_of_int 40 / real_of_int 45 * 0.3) 1)"
  using message_score_capped [of 100 45 "0.6" 40 5] by simp

text \<open>
  C2, as stated, fails on the code: for \<open>message_count=25, positive=10, negative=10,
  average_sentiment=0.1\<close> the code does not return 0.28.
\<close>

theorem C2_counterexample_second_scenario:
  "calculate_lead_score (total_sentiment_classified_messages 10 10) 25 0.1 10 10 \<noteq> Inr 0.28"
  by (simp add: calculate_lead_score_def engagement_score_def message_score_def
      sentiment_score_def total_sentiment_classified_messages_def)

text \<open>
  C2, amended: for \<open>message_count=60, positive=40, negative=5, average_sentiment=0.6\<close>
  the score is 127/150, within 0.0001 of 0.8467, and the category is High-Value Lead; for
  \<open>message_count=25, positive=10, negative=10, average_sentiment=0.1\<close> the score is
  0.43 (0.25 + 0.03 + 0.15) and the category is Active Contact, whatever the
  Positive-Contact threshold.
\<close>

theorem worked_scenarios:
  "calculate_lead_score (total_sentiment_classified_messages 40 5) 60 0.6 40 5 = Inr (127 / 150)
   \<and> \<bar>127 / 150 - 0.8467\<bar> < (0.0001 :: real)
   \<and> categorize_contact positive_threshold 60 0.6 = High_Value_Lead
   \<and> calculate_lead_score (total_sentiment_classified_messages 10 10) 25 0.1 10 10 = Inr 0.43
   \<and> categorize_contact positive_threshold 25 0.1 = Active_Contact"
  by (simp add: calculate_lead_score_def engagement_score_def message_score_def
      sentiment_score_def total_sentiment_classified_messages_def categorize_contact_def)



text \<open>
  Where something is classified, \<open>compute_score\<close> returns the score of the printed body
  run with the specification's denominator.
\<close>

lemma compute_score_printed_body:
  assumes "positive_message_count + negative_message_count \<noteq> 0"
  shows "\<exists>r. compute_score positive_threshold message_count average_sentiment
               positive_message_count negative_message_count = Inr r
             \<and> calculate_lead_score (positive_message_count + negative_message_count)
                 message_count average_sentiment positive_message_count
                 negative_message_count = Inr (score r)"
  using assms
  by (simp add: compute_score_def Let_def total_sentiment_classified_messages_def
      calculate_lead_score_returns)

text \<open>
  C4, as stated, fails on the code: for \<open>message_count=10, positive=3, negative=1,
  average_sentiment=0.5\<close> the code returns 0.475, and
  \<open>clamp(0.4 * engagement + 0.3 * sentiment + 0.3 * ratio, 0.0, 1.0)\<close> is 0.415.
\<close>

theorem C4_counterexample_spec_score:
  "calculate_lead_score (total_sentiment_classified_messages 3 1) 10 0.5 3 1
     \<noteq> Inr (spec_score 10 0.5 3 1)"
  by (simp add: calculate_lead_score_def engagement_score_def message_score_def
      sentiment_score_def total_sentiment_classified_messages_def spec_score_def
      spec_engagement_subscore_def clamp_def)

text \<open>Nothing clamps the score from below: a negative count gives a negative score.\<close>

lemma no_lower_clamp:
  "calculate_lead_score 1 (- 100) 0 0 1 = Inr (- 1)"
  by (simp add: calculate_lead_score_def engagement_score_def message_score_def
      sentiment_score_def)

text \<open>
  C4, amended: whenever \<open>total_messages\<close> is not 0, the score is
  \<open>min(0.4 * min(message_count / 40, 1.0) + 0.3 * max(0, avg_sentiment)
  + 0.3 * (positive_messages / total_messages), 1.0)\<close>, clamped at the upper bound 1.0
  only. It is therefore at most 1.0 for every input, and it lies within [0.0, 1.0] for
  every input whose engagement and ratio sub-scores are not negative (the sentiment
  sub-score never is).
\<close>

theorem score_clamped_above_only:
  assumes "total_messages \<noteq> 0"
  shows "\<exists>v. calculate_lead_score total_messages message_count avg_sentiment
               positive_messages negative_messages = Inr v
           \<and> v = min (0.4 * min (real_of_int message_count / 40) 1
                      + 0.3 * max 0 avg_sentiment
                      + 0.3 * (real_of_int positive_messages / real_of_int total_messages)) 1
           \<and> v \<le> 1
           \<and> (0 \<le> min (real_of_int message_count / 40) 1
                \<and> 0 \<le> real_of_int positive_messages / real_of_int total_messages
                \<longrightarrow> 0 \<le> v)"
proof -
  let ?e = "0.4 * min (real_of_int message_count / 40) 1"
  let ?s = "0.3 * max 0 avg_sentiment"
  let ?r = "0.3 * (real_of_int positive_messages / real_of_int total_messages)"
  have m: "message_score message_count = ?e"
    by (simp add: message_score_def min_def)
  have s: "sentiment_score avg_sentiment = ?s"
    by (simp add: sentiment_score_def)
  have eq: "calculate_lead_score total_messages message_count avg_sentiment
               positive_messages negative_messages = Inr (min (?e + ?s + ?r) 1)"
    using assms by (simp add: calculate_lead_score_returns m s)
  have up: "min (?e + ?s + ?r) 1 \<le> 1"
    by simp
  have lo: "0 \<le> min (?e + ?s + ?r) 1"
    if "0 \<le> min (real_of_int message_count / 40) 1"
      and "0 \<le> real_of_int positive_messages / real_of_int total_messages"
  proof -
    have "0 \<le> ?e" using that(1) by simp
    moreover have "0 \<le> ?s" by simp
    moreover have "0 \<le> ?r" using that(2) by simp
    ultimately have "0 \<le> ?e + ?s + ?r" by linarith
    then show ?thesis by simp
  qed
  from eq up lo show ?thesis by blast
qed

text \<open>The amended C4 at 10 messages, 3 positive of 4 classified, sentiment 0.5.\<close>

theorem score_clamped_above_only_witness:
  "(4::int) \<noteq> 0
   \<and> calculate_lead_score 4 10 0.5 3 1 = Inr 0.475
   \<and> (0.475::real) = min (0.4 * min (real_of_int 10 / 40) 1 + 0.3 * max 0 0.5
                          + 0.3 * (real_of_int 3 / real_of_int 4)) 1
   \<and> (0.475::real) \<le> 1
   \<and> (0::real) \<le> min (real_of_int 10 / 40) 1
   \<and> (0::real) \<le> real_of_int 3 / real_of_int 4
   \<and> (0::real) \<le> 0.475"
proof -
  have h: "(4::int) \<noteq> 0" by simp
  obtain v where
    r: "calculate_lead_score 4 10 0.5 3 1 = Inr v"
    and v: "v = min (0.4 * min (real_of_int 10 / 40) 1 + 0.3 * max 0 0.5
                    + 0.3 * (real_of_int 3 / real_of_int 4)) 1"
    using score_clamped_above_only [OF h, of 10 "0.5" 3 1] by blast
  from v have "v = 0.475" by simp
  with r show ?thesis by simp
qed

section \<open>Claims about the category\<close>

text \<open>
  C5: the rules are tried in priority order and the first match wins. Every aggregate with
  \<open>message_count > 50\<close> and \<open>average_sentiment > 0\<close> is a High-Value Lead, and is not
  an Active, Regular or Positive Contact, however the Positive-Contact threshold is set
  and however high the sentiment is.
\<close>

theorem high_value_lead_first:
  assumes "message_count > 50" and "avg_sentiment > 0"
  shows "categorize_contact positive_threshold message_count avg_sentiment = High_Value_Lead
         \<and> categorize_contact positive_threshold message_count avg_sentiment
             \<notin> {Active_Contact, Regular_Contact, Positive_Contact}"
  using assms by (simp add: categorize_contact_def)

text \<open>C5 at 51 messages and sentiment 1.0, above a Positive-Contact threshold of 0.5.\<close>

theorem high_value_lead_first_witness:
  "(51::int) > 50 \<and> (1::real) > 0
   \<and> categorize_contact 0.5 51 1 = High_Value_Lead
   \<and> categorize_contact 0.5 51 1 \<notin> {Active_Contact, Regular_Contact, Positive_Contact}"
  using high_value_lead_first [of 51 1 "0.5"] by simp

text \<open>
  C6: with \<open>average_sentiment\<close> fixed at a positive value, a larger \<open>message_count\<close>
  never gives a lower tier. Across the thresholds: at 10 messages the category is below
  Regular Contact, at 20 it is Regular Contact, at 50 Active Contact, at 51 High-Value Lead.
\<close>

theorem category_monotone_in_message_count:
  assumes "0 < avg_sentiment" and "m1 \<le> m2"
  shows "tier (categorize_contact positive_threshold m1 avg_sentiment)
           \<le> tier (categorize_contact positive_threshold m2 avg_sentiment)
         \<and> tier (categorize_contact positive_threshold 10 avg_sentiment) < tier Regular_Contact
         \<and> categorize_contact positive_threshold 20 avg_sentiment = Regular_Contact
         \<and> categorize_contact positive_threshold 50 avg_sentiment = Active_Contact
         \<and> categorize_contact positive_threshold 51 avg_sentiment = High_Value_Lead"
  using assms by (simp add: categorize_contact_def)

text \<open>C6 for sentiment 0.5, from 20 messages to 51.\<close>

theorem category_monotone_in_message_count_witness:
  "(0::real) < 0.5 \<and> (20::int) \<le> 51
   \<and> tier (categorize_contact 0.5 20 0.5) \<le> tier (categorize_contact 0.5 51 0.5)
   \<and> tier (categorize_contact 0.5 10 0.5) < tier Regular_Contact
   \<and> categorize_contact 0.5 20 0.5 = Regular_Contact
   \<and> categorize_contact 0.5 50 0.5 = Active_Contact
   \<and> categorize_contact 0.5 51 0.5 = High_Value_Lead"
  using category_monotone_in_message_count [of "0.5" 20 51 "0.5"] by simp

section \<open>Claims about sentiment and the score's range\<close>

text \<open>
  C8: for every \<open>average_sentiment \<le> 0\<close> the sentiment term
  \<open>max(0, avg_sentiment) * 0.3\<close> is exactly 0. The call then gives what it gives for a
  neutral contact (sentiment 0) with the same counts, and when it returns, the total is
  the message term plus 0 plus the ratio term, clamped at 1.0.
\<close>

theorem nonpositive_sentiment_contributes_zero:
  assumes "avg_sentiment \<le> 0"
  shows "sentiment_score avg_sentiment = 0
         \<and> calculate_lead_score total_messages message_count avg_sentiment
               positive_messages negative_messages
             = calculate_lead_score total_messages message_count 0
                 positive_messages negative_messages
         \<and> (total_messages \<noteq> 0 \<longrightarrow>
              calculate_lead_score total_messages message_count avg_sentiment
                  positive_messages negative_messages
                = Inr (min (message_score message_count + 0
                            + real_of_int positive_messages / real_of_int total_messages * 0.3) 1))"
proof -
  have z: "sentiment_score avg_sentiment = 0"
    using assms by (simp add: sentiment_score_def max_def)
  have z0: "sentiment_score 0 = 0"
    by (simp add: sentiment_score_def)
  have same: "calculate_lead_score total_messages message_count avg_sentiment
                positive_messages negative_messages
              = calculate_lead_score total_messages message_count 0
                  positive_messages negative_messages"
    by (simp add: calculate_lead_score_def z z0 split: sum.splits)
  have total: "calculate_lead_score total_messages message_count avg_sentiment
                  positive_messages negative_messages
                = Inr (min (message_score message_count + 0
                            + real_of_int positive_messages / real_of_int total_messages * 0.3) 1)"
    if "total_messages \<noteq> 0"
    using that by (simp add: calculate_lead_score_returns z)
  from z same total show ?thesis by blast
qed

text \<open>C8 at sentiment -0.5 with 25 messages, 10 positive and 10 negative.\<close>

theorem nonpositive_sentiment_contributes_zero_witness:
  "(- 0.5 :: real) \<le> 0 \<and> (20::int) \<noteq> 0
   \<and> sentiment_score (- 0.5) = 0
   \<and> calculate_lead_score 20 25 (- 0.5) 10 10 = calculate_lead_score 20 25 0 10 10
   \<and> calculate_lead_score 20 25 (- 0.5) 10 10
        = Inr (min (message_score 25 + 0 + real_of_int 10 / real_of_int 20 * 0.3) 1)"
proof -
  have h: "(- 0.5 :: real) \<le> 0" by simp
  have t: "(20::int) \<noteq> 0" by simp
  from nonpositive_sentiment_contributes_zero [OF h, of 20 25 10 10] h t
  show ?thesis by blast
qed

text \<open>
  C9: every value \<open>_calculate_lead_score\<close> returns is at most 1.0, and the hot-leads
  query selects \<open>lead_score \<ge> 70\<close>. A contact whose stored \<open>lead_score\<close> is such a
  value is in the answer of the hot-leads filter for no database.
\<close>

theorem hot_leads_filter_never_matches:
  assumes "calculate_lead_score total_messages message_count avg_sentiment
             positive_messages negative_messages = Inr v"
    and "lead_score c = Some v"
  shows "v \<le> 1 \<and> c \<notin> set (search_contacts [Lead_score_gte 70] db)"
proof -
  have "total_messages \<noteq> 0"
    using assms(1) by (auto simp: calculate_lead_score_raises)
  then have "v = min (message_score message_count + sentiment_score avg_sentiment
               + real_of_int positive_messages / real_of_int total_messages * 0.3) 1"
    using assms(1) by (simp add: calculate_lead_score_returns)
  then have le: "v \<le> 1" by simp
  then have "\<not> matches_filter (Lead_score_gte 70) c"
    using assms(2) by simp
  then have "c \<notin> set (search_contacts [Lead_score_gte 70] db)"
    by (simp add: search_contacts_def)
  with le show ?thesis by simp
qed

text \<open>C9 for a contact stored with the score 127/150 of the first worked scenario.\<close>

theorem hot_leads_filter_never_matches_witness:
  "calculate_lead_score 45 60 0.6 40 5 = Inr (127 / 150)
   \<and> lead_score \<lparr>name = Some ''Ada'', organization = None,
                   lead_score = Some (127 / 150), last_interaction = None\<rparr> = Some (127 / 150)
   \<and> (127 / 150 :: real) \<le> 1
   \<and> \<lparr>name = Some ''Ada'', organization = None,
        lead_score = Some (127 / 150), last_interaction = None\<rparr>
       \<notin> set (search_contacts [Lead_score_gte 70]
                [\<lparr>name = Some ''Ada'', organization = None,
                  lead_score = Some (127 / 150), last_interaction = None\<rparr>])"
proof -
  have r: "calculate_lead_score 45 60 0.6 40 5 = Inr (127 / 150)"
    by (simp add: calculate_lead_score_def engagement_score_def message_score_def
        sentiment_score_def)
  have l: "lead_score \<lparr>name = Some ''Ada'', organization = None,
                   lead_score = Some (127 / 150), last_interaction = None\<rparr> = Some (127 / 150)"
    by simp
  from hot_leads_filter_never_matches [OF r l] r l show ?thesis by blast
qed

text \<open>
  When every stored score is at most 1.0, the hot-leads query answers that there are no
  hot leads.
\<close>

lemma hot_leads_empty_answer:
  assumes "\<forall>c \<in> set db. \<exists>v. lead_score c = Some v \<and> v \<le> 1"
  shows "hot_leads render db = ''No hot leads found at this time.''"
proof -
  have "search_contacts [Lead_score_gte 70] db = []"
    using assms by (fastforce simp: search_contacts_def filter_empty_conv)
  then show ?thesis
    by (simp add: hot_leads_def format_hot_leads_response_def)
qed

text \<open>
  C10: for \<open>message_count \<ge> 0\<close>, \<open>positive_message_count \<ge> 0\<close>,
  \<open>negative_message_count \<ge> 0\<close> and
  \<open>positive_message_count + negative_message_count > 0\<close> the call returns a score, and
  the score is at least 0.0 although nothing clamps it from below: each of the three
  addends is at least 0.
\<close>

theorem score_nonneg_without_lower_clamp:
  assumes "0 \<le> message_count" and "0 \<le> positive_messages" and "0 \<le> negative_messages"
    and "0 < positive_messages + negative_messages"
  shows "\<exists>v. calculate_lead_score
                (total_sentiment_classified_messages positive_messages negative_messages)
                message_count avg_sentiment positive_messages negative_messages = Inr v
             \<and> 0 \<le> v
             \<and> 0 \<le> min (real_of_int message_count / 100) 0.4
             \<and> 0 \<le> max 0 avg_sentiment * 0.3
             \<and> 0 \<le> real_of_int positive_messages
                      / real_of_int (positive_messages + negative_messages) * 0.3"
proof -
  let ?t = "positive_messages + negative_messages"
  have a: "0 \<le> min (real_of_int message_count / 100) 0.4"
    using assms(1) by simp
  have b: "0 \<le> max 0 avg_sentiment * 0.3"
    by simp
  have c: "0 \<le> real_of_int positive_messages / real_of_int ?t * 0.3"
    using assms(2,4) by simp
  have "0 \<le> min (real_of_int message_count / 100) 0.4 + max 0 avg_sentiment * 0.3
             + real_of_int positive_messages / real_of_int ?t * 0.3"
    using a b c by linarith
  then have d: "0 \<le> min (min (real_of_int message_count / 100) 0.4 + max 0 avg_sentiment * 0.3
             + real_of_int positive_messages / real_of_int ?t * 0.3) 1"
    by simp
  have e: "calculate_lead_score (total_sentiment_classified_messages positive_messages negative_messages)
                message_count avg_sentiment positive_messages negative_messages
           = Inr (min (min (real_of_int message_count / 100) 0.4 + max 0 avg_sentiment * 0.3
             + real_of_int positive_messages / real_of_int ?t * 0.3) 1)"
    using assms(4)
    by (simp add: calculate_lead_score_returns total_sentiment_classified_messages_def
        message_score_def sentiment_score_def)
  from a b c d e show ?thesis by blast
qed

text \<open>C10 at sentiment -0.5 with 25 messages, 10 positive and 10 negative.\<close>

theorem score_nonneg_without_lower_clamp_witness:
  "(0::int) \<le> 25 \<and> (0::int) \<le> 10 \<and> (0::int) < 10 + 10
   \<and> calculate_lead_score (total_sentiment_classified_messages 10 10) 25 (- 0.5) 10 10
        = Inr 0.4
   \<and> (0::real) \<le> 0.4
   \<and> 0 \<le> min (real_of_int 25 / 100) (0.4::real)
   \<and> 0 \<le> max 0 (- 0.5 :: real) * 0.3
   \<and> 0 \<le> real_of_int 10 / real_of_int (10 + 10) * (0.3::real)"
proof -
  have h: "(0::int) \<le> 25" "(0::int) \<le> 10" "(0::int) < 10 + 10" by simp_all
  obtain v where
    r: "calculate_lead_score (total_sentiment_classified_messages 10 10) 25 (- 0.5) 10 10 = Inr v"
    using score_nonneg_without_lower_clamp [OF h(1) h(2) h(2) h(3), of "- 0.5"] by blast
  have "calculate_lead_score (total_sentiment_classified_messages 10 10) 25 (- 0.5) 10 10
        = Inr 0.4"
    by (simp add: calculate_lead_score_def engagement_score_def message_score_def
        sentiment_score_def total_sentiment_classified_messages_def)
  with r show ?thesis by simp
qed

end
